theory Spec2Isabelle
  imports Complex_Main "HOL-Library.AList"
begin

section \<open>The dog-license application wizard (src/app/new-application/page.tsx)\<close>

text \<open>
  The component is a React function component. Its state (the \<open>useState\<close> cells, the
  react-hook-form store, the browser's local storage, the notifications shown and the
  console) is one record, and every handler and effect body of the source is a function
  from that record to the updated record. Exceptions are values of a sum type, so each
  \<open>try\<close>/\<open>catch\<close> of the source is a case distinction of the model.
\<close>

subsection \<open>JavaScript values\<close>

text \<open>
  A \<open>File\<close> as the schema reads it: its \<open>size\<close> in bytes and its MIME \<open>type\<close>.
\<close>

record js_file =
  file_size :: nat
  file_type :: string

text \<open>
  The values a form field, a parsed draft or a stored record can hold at run time. A
  string is a list of characters, one per code unit, so \<open>length\<close> is JavaScript's
  \<open>.length\<close>. A number is a real (every finite double is one). An object is the list
  of its own properties in insertion order.
\<close>

datatype jsval =
    JSUndefined
  | JSNull
  | JSBool bool
  | JSNum real
  | JSStr string
  | JSArr "jsval list"
  | JSObj "(string \<times> jsval) list"
  | JSFileList "js_file list"

datatype js_error = SyntaxError | TypeError | QuotaExceededError

type_synonym js_object = "(string \<times> jsval) list"

text \<open>Reading a property: \<open>undefined\<close> when the object has no such key.\<close>

definition get_prop :: "js_object \<Rightarrow> string \<Rightarrow> jsval" where
  "get_prop obj k = (case map_of obj k of Some v \<Rightarrow> v | None \<Rightarrow> JSUndefined)"

text \<open>
  Object spread \<open>{...target, ...src}\<close>: each property of \<open>src\<close> is assigned in order; an
  existing key keeps its position and takes the new value, a new key goes last.
\<close>

definition spread :: "js_object \<Rightarrow> js_object \<Rightarrow> js_object" where
  "spread target src = foldl (\<lambda>obj kv. AList.update (fst kv) (snd kv) obj) target src"

subsection \<open>The platform\<close>

text \<open>
  What the browser (or the server-side renderer) supplies to the component: whether
  \<open>window\<close> and \<open>FileList\<close> are defined, the two JSON functions, and the values the clock
  and the random generator return when \<open>onSubmit\<close> reads them. \<open>JSON.parse\<close> throws a
  \<open>SyntaxError\<close> on text that is not JSON. \<open>Date.now()\<close> is the number of milliseconds
  elapsed since the epoch, \<open>Math.random()\<close> a number in \<open>[0, 1)\<close>, and
  \<open>Date_toISOString\<close> the text of \<open>new Date().toISOString()\<close>.
\<close>

record platform =
  window_defined :: bool
  FileList_defined :: bool
  JSON_parse :: "string \<Rightarrow> js_error + jsval"
  JSON_stringify :: "jsval \<Rightarrow> string"
  Date_now :: nat
  Math_random :: real
  Date_toISOString :: string

subsection \<open>Local storage\<close>

text \<open>
  The Web Storage area of the page: keys and values are strings; \<open>setItem\<close> throws a
  \<open>QuotaExceededError\<close> and stores nothing when the new contents would exceed the quota.
\<close>

record storage =
  items :: "(string \<times> string) list"
  quota :: nat

definition usage :: "(string \<times> string) list \<Rightarrow> nat" where
  "usage kvs = sum_list (map (\<lambda>kv. length (fst kv) + length (snd kv)) kvs)"

definition getItem :: "storage \<Rightarrow> string \<Rightarrow> string option" where
  "getItem sto k = map_of (items sto) k"

definition fits :: "storage \<Rightarrow> string \<Rightarrow> string \<Rightarrow> bool" where
  "fits sto k v = (usage (AList.update k v (items sto)) \<le> quota sto)"

definition setItem :: "storage \<Rightarrow> string \<Rightarrow> string \<Rightarrow> js_error + storage" where
  "setItem sto k v =
     (if fits sto k v then Inr (sto\<lparr>items := AList.update k v (items sto)\<rparr>)
      else Inl QuotaExceededError)"

definition removeItem :: "storage \<Rightarrow> string \<Rightarrow> storage" where
  "removeItem sto k = sto\<lparr>items := AList.delete k (items sto)\<rparr>"

subsection \<open>The helpers imported from @/lib/utils\<close>

text \<open>
  \<open>sanitizeUSPhone\<close>, \<open>coerceDate\<close>, \<open>isWithinYears\<close>, \<open>parseNumberSafe\<close> and
  \<open>isPositiveNumber\<close> are imported by the page and defined elsewhere; the schema takes
  them as a parameter. \<open>'d\<close> is the type of the dates \<open>coerceDate\<close> returns; \<open>None\<close> is
  the helpers' \<open>null\<close>.
\<close>

record phone_result =
  ok :: bool

record 'd utils =
  sanitizeUSPhone :: "string \<Rightarrow> phone_result"
  coerceDate :: "string \<Rightarrow> 'd option"
  isWithinYears :: "'d \<Rightarrow> nat \<Rightarrow> bool"
  parseNumberSafe :: "string \<Rightarrow> real option"
  isPositiveNumber :: "real \<Rightarrow> bool"

subsection \<open>createDogLicenseSchema\<close>

text \<open>
  A zod schema is what it decides: the set of values it accepts. \<open>z.string()\<close> accepts
  strings only, and the checks chained on it (\<open>min\<close>, \<open>max\<close>, \<open>refine\<close>) run on the string.
\<close>

fun z_string :: "(string \<Rightarrow> bool) \<Rightarrow> jsval \<Rightarrow> bool" where
  "z_string chk (JSStr s) = chk s"
| "z_string chk _ = False"

definition ownerName_schema :: "jsval \<Rightarrow> bool" where
  "ownerName_schema = z_string (\<lambda>s. 2 \<le> length s \<and> length s \<le> 100)"

definition ownerAddress_schema :: "jsval \<Rightarrow> bool" where
  "ownerAddress_schema = z_string (\<lambda>s. 10 \<le> length s \<and> length s \<le> 200)"

definition ownerPhone_schema :: "'d utils \<Rightarrow> jsval \<Rightarrow> bool" where
  "ownerPhone_schema U = z_string (\<lambda>val. ok (sanitizeUSPhone U val))"

definition dogName_schema :: "jsval \<Rightarrow> bool" where
  "dogName_schema = z_string (\<lambda>s. 1 \<le> length s \<and> length s \<le> 50)"

definition dogBreed_schema :: "jsval \<Rightarrow> bool" where
  "dogBreed_schema = z_string (\<lambda>s. 1 \<le> length s \<and> length s \<le> 50)"

definition dogAge_schema :: "'d utils \<Rightarrow> jsval \<Rightarrow> bool" where
  "dogAge_schema U =
     z_string (\<lambda>val. case parseNumberSafe U val of
                        None \<Rightarrow> False
                      | Some num \<Rightarrow> isPositiveNumber U num \<and> num \<le> 30)"

definition dogColor_schema :: "jsval \<Rightarrow> bool" where
  "dogColor_schema = z_string (\<lambda>s. 1 \<le> length s \<and> length s \<le> 30)"

definition lastRabiesShotDate_schema :: "'d utils \<Rightarrow> jsval \<Rightarrow> bool" where
  "lastRabiesShotDate_schema U =
     z_string (\<lambda>val. coerceDate U val \<noteq> None \<and>
                      (case coerceDate U val of
                         None \<Rightarrow> False
                       | Some date \<Rightarrow> isWithinYears U date 3))"

definition baseSchema :: "'d utils \<Rightarrow> (string \<times> (jsval \<Rightarrow> bool)) list" where
  "baseSchema U =
     [(''ownerName'', ownerName_schema),
      (''ownerAddress'', ownerAddress_schema),
      (''ownerPhone'', ownerPhone_schema U),
      (''dogName'', dogName_schema),
      (''dogBreed'', dogBreed_schema),
      (''dogAge'', dogAge_schema U),
      (''dogColor'', dogColor_schema),
      (''lastRabiesShotDate'', lastRabiesShotDate_schema U)]"

definition allowedTypes :: "string list" where
  "allowedTypes = [''application/pdf'', ''image/jpeg'', ''image/png'', ''image/jpg'']"

text \<open>
  The client-side file field: an instance of \<open>FileList\<close> passing the three refinements;
  \<open>files[0]\<close> is \<open>undefined\<close> (falsy) on an empty list.
\<close>

definition vaccinationCertificate_client :: "jsval \<Rightarrow> bool" where
  "vaccinationCertificate_client v =
     (case v of
        JSFileList files \<Rightarrow>
          0 < length files \<and>
          (case files of [] \<Rightarrow> False | file # _ \<Rightarrow> file_size file \<le> 5 * 1024 * 1024) \<and>
          (case files of [] \<Rightarrow> False | file # _ \<Rightarrow> file_type file \<in> set allowedTypes)
      | _ \<Rightarrow> False)"

text \<open>The server-side fallback \<open>z.any().optional()\<close> accepts every value.\<close>

definition vaccinationCertificate_fallback :: "jsval \<Rightarrow> bool" where
  "vaccinationCertificate_fallback v = True"

definition createDogLicenseSchema ::
    "platform \<Rightarrow> 'd utils \<Rightarrow> (string \<times> (jsval \<Rightarrow> bool)) list" where
  "createDogLicenseSchema P U =
     (if window_defined P \<and> FileList_defined P
      then baseSchema U @ [(''vaccinationCertificate'', vaccinationCertificate_client)]
      else baseSchema U @ [(''vaccinationCertificate'', vaccinationCertificate_fallback)])"

subsection \<open>The form store (react-hook-form)\<close>

text \<open>
  The store keeps the current values and the default values. \<open>reset(v)\<close> makes \<open>v\<close> both
  the values and the new defaults; with no argument, a falsy one or an empty object the
  values go back to the defaults. Any other value that is not a plain object (a number,
  \<open>true\<close>, a string, an array) has none of the form's fields, and the store is left
  without fields.
\<close>

record form_store =
  formValues :: js_object
  defaultValues :: js_object

definition falsy :: "jsval \<Rightarrow> bool" where
  "falsy v = (v = JSUndefined \<or> v = JSNull \<or> v = JSBool False \<or> v = JSNum 0 \<or> v = JSStr [])"

definition form_reset :: "jsval \<Rightarrow> form_store \<Rightarrow> form_store" where
  "form_reset v f =
     (case v of
        JSObj kvs \<Rightarrow>
          (if kvs = [] then f\<lparr>formValues := defaultValues f, defaultValues := []\<rparr>
           else f\<lparr>formValues := kvs, defaultValues := kvs\<rparr>)
      | _ \<Rightarrow>
          (if falsy v then f\<lparr>formValues := defaultValues f\<rparr>
           else f\<lparr>formValues := [], defaultValues := []\<rparr>))"

text \<open>
  The resolver runs the whole schema over the values and reports the fields in error;
  \<open>trigger(names)\<close> is true when none of the named fields is among them.
\<close>

definition resolver_errors :: "(string \<times> (jsval \<Rightarrow> bool)) list \<Rightarrow> js_object \<Rightarrow> string list" where
  "resolver_errors schema vals = map fst (filter (\<lambda>kr. \<not> snd kr (get_prop vals (fst kr))) schema)"

definition trigger :: "(string \<times> (jsval \<Rightarrow> bool)) list \<Rightarrow> js_object \<Rightarrow> string list \<Rightarrow> bool" where
  "trigger schema vals names = (\<not> list_ex (\<lambda>name. name \<in> set (resolver_errors schema vals)) names)"

text \<open>A field passes when the rule the schema has for it accepts the field's value.\<close>

definition field_passes :: "platform \<Rightarrow> 'd utils \<Rightarrow> js_object \<Rightarrow> string \<Rightarrow> bool" where
  "field_passes P U vals name =
     (case map_of (createDogLicenseSchema P U) name of
        None \<Rightarrow> True
      | Some rule \<Rightarrow> rule (get_prop vals name))"

subsection \<open>The component's state\<close>

datatype toast = ToastInfo string | ToastSuccess string | ToastError string

record wizard =
  currentStep :: int
  isClient :: bool
  form :: form_store
  localStorage :: storage
  toasts :: "toast list"
  console :: "(string \<times> js_error) list"
  timeouts :: "(nat \<times> string) list"

definition STEPS :: "(int \<times> string \<times> string) list" where
  "STEPS =
     [(1, ''Owner Information'', ''Your personal details''),
      (2, ''Dog Information'', ''About your dog''),
      (3, ''Vaccination Records'', ''Health documentation''),
      (4, ''Review & Submit'', ''Confirm your application'')]"

definition initialValues :: js_object where
  "initialValues =
     [(''ownerName'', JSStr ''''),
      (''ownerAddress'', JSStr ''''),
      (''ownerPhone'', JSStr ''''),
      (''dogName'', JSStr ''''),
      (''dogBreed'', JSStr ''''),
      (''dogAge'', JSStr ''''),
      (''dogColor'', JSStr ''''),
      (''lastRabiesShotDate'', JSStr '''')]"

text \<open>The first render, over whatever the storage area holds.\<close>

definition initial_wizard :: "storage \<Rightarrow> wizard" where
  "initial_wizard sto =
     \<lparr>currentStep = 1, isClient = False,
      form = \<lparr>formValues = initialValues, defaultValues = initialValues\<rparr>,
      localStorage = sto, toasts = [], console = [], timeouts = []\<rparr>"

text \<open>The mount effect: \<open>setIsClient(true)\<close>.\<close>

definition mount :: "wizard \<Rightarrow> wizard" where
  "mount w = w\<lparr>isClient := True\<rparr>"

subsection \<open>Step navigation\<close>

definition getFieldsForStep :: "int \<Rightarrow> string list" where
  "getFieldsForStep step =
     (if step = 1 then [''ownerName'', ''ownerAddress'', ''ownerPhone'']
      else if step = 2 then [''dogName'', ''dogBreed'', ''dogAge'', ''dogColor'']
      else if step = 3 then [''lastRabiesShotDate'', ''vaccinationCertificate'']
      else [])"

definition nextStep :: "platform \<Rightarrow> 'd utils \<Rightarrow> wizard \<Rightarrow> wizard" where
  "nextStep P U w =
     (let fieldsToValidate = getFieldsForStep (currentStep w);
          isValid = trigger (createDogLicenseSchema P U) (formValues (form w)) fieldsToValidate
      in if isValid then w\<lparr>currentStep := min (currentStep w + 1) (int (length STEPS))\<rparr>
         else w\<lparr>toasts := toasts w @ [ToastError ''Please fix the errors before continuing'']\<rparr>)"

definition prevStep :: "wizard \<Rightarrow> wizard" where
  "prevStep w = w\<lparr>currentStep := max (currentStep w - 1) 1\<rparr>"

text \<open>A field's \<open>onChange\<close>: the store takes the new value of the field.\<close>

definition setFieldValue :: "string \<Rightarrow> jsval \<Rightarrow> wizard \<Rightarrow> wizard" where
  "setFieldValue name v w =
     w\<lparr>form := (form w)\<lparr>formValues := AList.update name v (formValues (form w))\<rparr>\<rparr>"

datatype event = NextStep | PrevStep | Change string jsval

fun handle :: "platform \<Rightarrow> 'd utils \<Rightarrow> event \<Rightarrow> wizard \<Rightarrow> wizard" where
  "handle P U NextStep w = nextStep P U w"
| "handle P U PrevStep w = prevStep w"
| "handle P U (Change name v) w = setFieldValue name v w"

definition run :: "platform \<Rightarrow> 'd utils \<Rightarrow> event list \<Rightarrow> wizard \<Rightarrow> wizard" where
  "run P U evs w = foldl (\<lambda>st ev. handle P U ev st) w evs"

subsection \<open>Decimal numerals\<close>

text \<open>Reading digits: the value of a digit, the leading digits of a text, their number.\<close>

definition digit_table :: "(char \<times> nat) list" where
  "digit_table =
     [(CHR ''0'', 0), (CHR ''1'', 1), (CHR ''2'', 2), (CHR ''3'', 3), (CHR ''4'', 4),
      (CHR ''5'', 5), (CHR ''6'', 6), (CHR ''7'', 7), (CHR ''8'', 8), (CHR ''9'', 9)]"

definition digit_of :: "char \<Rightarrow> nat option" where
  "digit_of c = map_of digit_table c"

fun take_digits :: "string \<Rightarrow> nat list \<times> string" where
  "take_digits [] = ([], [])"
| "take_digits (c # cs) =
     (case digit_of c of
        None \<Rightarrow> ([], c # cs)
      | Some d \<Rightarrow> (case take_digits cs of (ds, r) \<Rightarrow> (d # ds, r)))"

definition nat_of_digits :: "nat list \<Rightarrow> nat" where
  "nat_of_digits ds = foldl (\<lambda>a d. 10 * a + d) 0 ds"


text \<open>
  A template literal and \<open>JSON.stringify\<close> print a number as \<open>Number::toString\<close> does:
  an integer below \<open>10\<^sup>2\<^sup>1\<close> as its decimal digits, after a minus sign when it is negative.
  The digits of a fraction are produced one by one, twenty at most.
\<close>

fun decimal :: "nat \<Rightarrow> string" where
  "decimal n = (if n < 10 then [''0123456789'' ! n]
                else decimal (n div 10) @ [''0123456789'' ! (n mod 10)])"

declare decimal.simps [simp del]

fun fraction_digits :: "nat \<Rightarrow> real \<Rightarrow> string" where
  "fraction_digits 0 f = []"
| "fraction_digits (Suc n) f =
     (if f = 0 then []
      else ''0123456789'' ! nat \<lfloor>f * 10\<rfloor> # fraction_digits n (f * 10 - of_int \<lfloor>f * 10\<rfloor>))"

definition Number_toString :: "real \<Rightarrow> string" where
  "Number_toString q =
     (if q < 0 then ''-'' else []) @ decimal (nat \<lfloor>\<bar>q\<bar>\<rfloor>) @
     (if \<bar>q\<bar> = of_int \<lfloor>\<bar>q\<bar>\<rfloor> then []
      else ''.'' @ fraction_digits 20 (\<bar>q\<bar> - of_int \<lfloor>\<bar>q\<bar>\<rfloor>))"

subsection \<open>Submission\<close>

definition generateApplicationId :: "platform \<Rightarrow> string" where
  "generateApplicationId P =
     (let timestamp = of_nat (Date_now P);
          random = of_int \<lfloor>Math_random P * 10000\<rfloor>
      in ''DOG-'' @ Number_toString timestamp @ ''-'' @ Number_toString random)"

text \<open>
  \<open>existingApps.push(x)\<close>: only an array has the method; on every other value the call
  throws a \<open>TypeError\<close>.
\<close>

fun array_push :: "jsval \<Rightarrow> jsval \<Rightarrow> js_error + jsval" where
  "array_push (JSArr xs) x = Inr (JSArr (xs @ [x]))"
| "array_push _ x = Inl TypeError"

text \<open>\<open>getItem(k) || d\<close>: the default stands in for \<open>null\<close> and for the empty string.\<close>

definition or_default :: "string option \<Rightarrow> string \<Rightarrow> string" where
  "or_default r d = (case r of None \<Rightarrow> d | Some s \<Rightarrow> if s = [] then d else s)"

text \<open>The object literal \<open>{ id, ...data, submittedAt, status }\<close>.\<close>

definition applicationData :: "platform \<Rightarrow> string \<Rightarrow> js_object \<Rightarrow> js_object" where
  "applicationData P applicationId formData =
     AList.update ''status'' (JSStr ''submitted'')
       (AList.update ''submittedAt'' (JSStr (Date_toISOString P))
          (spread [(''id'', JSStr applicationId)] formData))"

text \<open>
  The body of the \<open>try\<close> block. The three statements that can throw (\<open>JSON.parse\<close>,
  \<open>push\<close>, \<open>setItem\<close>) come before every effect of the block, so a thrown error leaves
  no partial effect behind and \<open>Inl\<close> carries the error alone.
\<close>

definition submit_try :: "platform \<Rightarrow> js_object \<Rightarrow> wizard \<Rightarrow> js_error + wizard" where
  "submit_try P formData w =
     (let applicationId = generateApplicationId P;
          record = JSObj (applicationData P applicationId formData)
      in case JSON_parse P (or_default (getItem (localStorage w) ''dogLicenseApplications'') ''[]'') of
           Inl e \<Rightarrow> Inl e
         | Inr existingApps \<Rightarrow>
            (case array_push existingApps record of
               Inl e \<Rightarrow> Inl e
             | Inr apps \<Rightarrow>
                (case setItem (localStorage w) ''dogLicenseApplications'' (JSON_stringify P apps) of
                   Inl e \<Rightarrow> Inl e
                 | Inr sto \<Rightarrow>
                    Inr (w\<lparr>localStorage := removeItem sto ''dogLicenseFormData'',
                           toasts := toasts w @
                             [ToastSuccess (''Application submitted successfully! Your application ID is: '' @
                                            applicationId)],
                           form := form_reset JSUndefined (form w),
                           currentStep := 1,
                           timeouts := timeouts w @ [(2000, ''/track-application?id='' @ applicationId)]\<rparr>))))"

definition onSubmit :: "platform \<Rightarrow> js_object \<Rightarrow> wizard \<Rightarrow> wizard" where
  "onSubmit P formData w =
     (if \<not> isClient w then w
      else case submit_try P formData w of
             Inr w' \<Rightarrow> w'
           | Inl error \<Rightarrow>
              w\<lparr>console := console w @ [(''Error submitting application:'', error)],
                toasts := toasts w @ [ToastError ''Failed to submit application. Please try again.'']\<rparr>)"

text \<open>The keys of \<open>DogLicenseFormData\<close>, the type of the schema's output.\<close>

definition DogLicenseFormData_keys :: "string list" where
  "DogLicenseFormData_keys =
     [''ownerName'', ''ownerAddress'', ''ownerPhone'', ''dogName'', ''dogBreed'', ''dogAge'',
      ''dogColor'', ''lastRabiesShotDate'', ''vaccinationCertificate'']"

definition is_DogLicenseFormData :: "js_object \<Rightarrow> bool" where
  "is_DogLicenseFormData formData =
     (distinct (map fst formData) \<and> list_all (\<lambda>k. k \<in> set DogLicenseFormData_keys) (map fst formData))"

subsection \<open>Draft persistence\<close>

text \<open>
  The save effect runs after a render in which the watched values changed. An error of
  \<open>setItem\<close> is not caught there.
\<close>

definition saveDraft :: "platform \<Rightarrow> wizard \<Rightarrow> js_error + wizard" where
  "saveDraft P w =
     (if isClient w then
        (let watchedValues = formValues (form w);
             dataToSave = AList.delete ''vaccinationCertificate'' watchedValues
         in case setItem (localStorage w) ''dogLicenseFormData'' (JSON_stringify P (JSObj dataToSave)) of
              Inl e \<Rightarrow> Inl e
            | Inr sto \<Rightarrow> Inr (w\<lparr>localStorage := sto\<rparr>))
      else Inr w)"

text \<open>The restore effect; \<open>if (savedData)\<close> skips \<open>null\<close> and the empty string.\<close>

definition restoreDraft :: "platform \<Rightarrow> wizard \<Rightarrow> wizard" where
  "restoreDraft P w =
     (if isClient w then
        (case getItem (localStorage w) ''dogLicenseFormData'' of
           None \<Rightarrow> w
         | Some savedData \<Rightarrow>
            (if savedData = [] then w
             else (case JSON_parse P savedData of
                     Inr parsedData \<Rightarrow>
                       w\<lparr>form := form_reset parsedData (form w),
                         toasts := toasts w @ [ToastInfo ''Previous form data restored'']\<rparr>
                   | Inl error \<Rightarrow>
                       w\<lparr>console := console w @ [(''Error loading saved form data:'', error)]\<rparr>)))
      else w)"

text \<open>
  Loading the page over a storage area: the first render, the mount effect, then the
  restore effect (declared before the save effect, so it reads the draft first).
\<close>

definition load_page :: "platform \<Rightarrow> storage \<Rightarrow> wizard" where
  "load_page P sto = restoreDraft P (mount (initial_wizard sto))"

subsection \<open>Reference JSON functions\<close>

text \<open>
  \<open>JSON.parse\<close> and \<open>JSON.stringify\<close> as ECMAScript defines them, over the values above:
  the platform the examples run on. The parser has fuel, one unit for each nesting and
  each element, which the length of the text bounds.
\<close>

definition is_ws :: "char \<Rightarrow> bool" where
  "is_ws c = (c = CHR 0x20 \<or> c = CHR 0x0A \<or> c = CHR 0x0D \<or> c = CHR 0x09)"

definition skip_ws :: "string \<Rightarrow> string" where
  "skip_ws = dropWhile is_ws"

fun strip_prefix :: "string \<Rightarrow> string \<Rightarrow> string option" where
  "strip_prefix [] cs = Some cs"
| "strip_prefix (p # ps) [] = None"
| "strip_prefix (p # ps) (c # cs) = (if p = c then strip_prefix ps cs else None)"

definition hex_of :: "char \<Rightarrow> nat option" where
  "hex_of c =
     map_of (digit_table @
             [(CHR ''a'', 10), (CHR ''b'', 11), (CHR ''c'', 12), (CHR ''d'', 13), (CHR ''e'', 14),
              (CHR ''f'', 15), (CHR ''A'', 10), (CHR ''B'', 11), (CHR ''C'', 12), (CHR ''D'', 13),
              (CHR ''E'', 14), (CHR ''F'', 15)]) c"

definition char_of_hex :: "nat \<Rightarrow> nat \<Rightarrow> char" where
  "char_of_hex hi lo =
     Char (odd lo) (odd (lo div 2)) (odd (lo div 4)) (odd (lo div 8))
          (odd hi) (odd (hi div 2)) (odd (hi div 4)) (odd (hi div 8))"

definition unescape :: "char \<Rightarrow> char option" where
  "unescape e =
     (if e = CHR 0x22 \<or> e = CHR 0x5C \<or> e = CHR ''/'' then Some e
      else if e = CHR ''b'' then Some (CHR 0x08)
      else if e = CHR ''f'' then Some (CHR 0x0C)
      else if e = CHR ''n'' then Some (CHR 0x0A)
      else if e = CHR ''r'' then Some (CHR 0x0D)
      else if e = CHR ''t'' then Some (CHR 0x09)
      else None)"

fun parse_chars :: "string \<Rightarrow> (string \<times> string) option" where
  "parse_chars [] = None"
| "parse_chars (c # cs) =
     (if c = CHR 0x22 then Some ([], cs)
      else if c = CHR 0x5C then
        (case cs of
           [] \<Rightarrow> None
         | e # r \<Rightarrow>
            (if e = CHR ''u'' then
               (case r of
                  h1 # h2 # h3 # h4 # r' \<Rightarrow>
                    (case (hex_of h1, hex_of h2, hex_of h3, hex_of h4) of
                       (Some a, Some b, Some c', Some d) \<Rightarrow>
                         (if a = 0 \<and> b = 0 then
                            (case parse_chars r' of
                               None \<Rightarrow> None
                             | Some (s, rest) \<Rightarrow> Some (char_of_hex c' d # s, rest))
                          else None)
                     | _ \<Rightarrow> None)
                | _ \<Rightarrow> None)
             else
               (case unescape e of
                  None \<Rightarrow> None
                | Some ch \<Rightarrow>
                   (case parse_chars r of
                      None \<Rightarrow> None
                    | Some (s, rest) \<Rightarrow> Some (ch # s, rest)))))
      else if (of_char c :: nat) < 32 then None
      else (case parse_chars cs of
              None \<Rightarrow> None
            | Some (s, rest) \<Rightarrow> Some (c # s, rest)))"

definition parse_fraction :: "string \<Rightarrow> (nat list \<times> string) option" where
  "parse_fraction cs =
     (case cs of
        [] \<Rightarrow> Some ([], cs)
      | c # r \<Rightarrow>
         (if c = CHR ''.'' then
            (case take_digits r of (ds, r') \<Rightarrow> if ds = [] then None else Some (ds, r'))
          else Some ([], cs)))"

definition parse_exponent :: "string \<Rightarrow> (int \<times> string) option" where
  "parse_exponent cs =
     (case cs of
        [] \<Rightarrow> Some (0, cs)
      | c # r \<Rightarrow>
         (if c = CHR ''e'' \<or> c = CHR ''E'' then
            (case r of
               [] \<Rightarrow> None
             | s # r' \<Rightarrow>
                (if s = CHR ''-'' then
                   (case take_digits r' of (ds, r'') \<Rightarrow>
                      if ds = [] then None else Some (- int (nat_of_digits ds), r''))
                 else
                   (case take_digits (if s = CHR ''+'' then r' else r) of (ds, r'') \<Rightarrow>
                      if ds = [] then None else Some (int (nat_of_digits ds), r''))))
          else Some (0, cs)))"

definition parse_number :: "string \<Rightarrow> (real \<times> string) option" where
  "parse_number cs =
     (case (case cs of [] \<Rightarrow> (False, cs) | c # r \<Rightarrow> if c = CHR ''-'' then (True, r) else (False, cs)) of
        (neg, cs1) \<Rightarrow>
          (case take_digits cs1 of
             (ips, cs2) \<Rightarrow>
               (if ips = [] \<or> (1 < length ips \<and> hd ips = 0) then None
                else
                  (case parse_fraction cs2 of
                     None \<Rightarrow> None
                   | Some (fds, cs3) \<Rightarrow>
                      (case parse_exponent cs3 of
                         None \<Rightarrow> None
                       | Some (e, cs4) \<Rightarrow>
                          Some ((if neg then - 1 else 1) *
                                (of_nat (nat_of_digits ips) +
                                 of_nat (nat_of_digits fds) / 10 ^ length fds) *
                                (if 0 \<le> e then 10 ^ nat e else 1 / 10 ^ nat (- e)), cs4))))))"

fun parse_value :: "nat \<Rightarrow> string \<Rightarrow> (jsval \<times> string) option"
  and parse_elements :: "nat \<Rightarrow> jsval list \<Rightarrow> string \<Rightarrow> (jsval list \<times> string) option"
  and parse_members :: "nat \<Rightarrow> js_object \<Rightarrow> string \<Rightarrow> (js_object \<times> string) option"
where
  "parse_value 0 cs = None"
| "parse_value (Suc n) cs =
     (case skip_ws cs of
        [] \<Rightarrow> None
      | c # r \<Rightarrow>
         (if c = CHR ''['' then
            (case skip_ws r of
               [] \<Rightarrow> None
             | d # r' \<Rightarrow>
                (if d = CHR '']'' then Some (JSArr [], r')
                 else (case parse_elements n [] (d # r') of
                         None \<Rightarrow> None
                       | Some (xs, rest) \<Rightarrow> Some (JSArr xs, rest))))
          else if c = CHR ''{'' then
            (case skip_ws r of
               [] \<Rightarrow> None
             | d # r' \<Rightarrow>
                (if d = CHR ''}'' then Some (JSObj [], r')
                 else (case parse_members n [] (d # r') of
                         None \<Rightarrow> None
                       | Some (kvs, rest) \<Rightarrow> Some (JSObj kvs, rest))))
          else if c = CHR 0x22 then
            (case parse_chars r of
               None \<Rightarrow> None
             | Some (s, rest) \<Rightarrow> Some (JSStr s, rest))
          else if c = CHR ''t'' then
            (case strip_prefix ''rue'' r of None \<Rightarrow> None | Some rest \<Rightarrow> Some (JSBool True, rest))
          else if c = CHR ''f'' then
            (case strip_prefix ''alse'' r of None \<Rightarrow> None | Some rest \<Rightarrow> Some (JSBool False, rest))
          else if c = CHR ''n'' then
            (case strip_prefix ''ull'' r of None \<Rightarrow> None | Some rest \<Rightarrow> Some (JSNull, rest))
          else
            (case parse_number (c # r) of
               None \<Rightarrow> None
             | Some (q, rest) \<Rightarrow> Some (JSNum q, rest))))"
| "parse_elements 0 acc cs = None"
| "parse_elements (Suc n) acc cs =
     (case parse_value n cs of
        None \<Rightarrow> None
      | Some (v, r) \<Rightarrow>
         (case skip_ws r of
            [] \<Rightarrow> None
          | c # r' \<Rightarrow>
             (if c = CHR '','' then parse_elements n (acc @ [v]) r'
              else if c = CHR '']'' then Some (acc @ [v], r')
              else None)))"
| "parse_members 0 acc cs = None"
| "parse_members (Suc n) acc cs =
     (case skip_ws cs of
        [] \<Rightarrow> None
      | q # r \<Rightarrow>
         (if q = CHR 0x22 then
            (case parse_chars r of
               None \<Rightarrow> None
             | Some (k, r1) \<Rightarrow>
                (case skip_ws r1 of
                   [] \<Rightarrow> None
                 | c # r2 \<Rightarrow>
                    (if c = CHR '':'' then
                       (case parse_value n r2 of
                          None \<Rightarrow> None
                        | Some (v, r3) \<Rightarrow>
                           (case skip_ws r3 of
                              [] \<Rightarrow> None
                            | d # r4 \<Rightarrow>
                               (if d = CHR '','' then parse_members n (AList.update k v acc) r4
                                else if d = CHR ''}'' then Some (AList.update k v acc, r4)
                                else None)))
                     else None)))
          else None))"

definition reference_JSON_parse :: "string \<Rightarrow> js_error + jsval" where
  "reference_JSON_parse text =
     (case parse_value (Suc (length text)) text of
        None \<Rightarrow> Inl SyntaxError
      | Some (v, rest) \<Rightarrow> if skip_ws rest = [] then Inr v else Inl SyntaxError)"

definition escape_char :: "char \<Rightarrow> string" where
  "escape_char c =
     (if c = CHR 0x22 then [CHR 0x5C, CHR 0x22]
      else if c = CHR 0x5C then [CHR 0x5C, CHR 0x5C]
      else if c = CHR 0x08 then [CHR 0x5C, CHR ''b'']
      else if c = CHR 0x0C then [CHR 0x5C, CHR ''f'']
      else if c = CHR 0x0A then [CHR 0x5C, CHR ''n'']
      else if c = CHR 0x0D then [CHR 0x5C, CHR ''r'']
      else if c = CHR 0x09 then [CHR 0x5C, CHR ''t'']
      else if (of_char c :: nat) < 32 then
        [CHR 0x5C, CHR ''u'', CHR ''0'', CHR ''0'',
         ''0123456789abcdef'' ! (of_char c div 16), ''0123456789abcdef'' ! (of_char c mod 16)]
      else [c])"

definition QuoteJSONString :: "string \<Rightarrow> string" where
  "QuoteJSONString s = CHR 0x22 # concat (map escape_char s) @ [CHR 0x22]"

fun join_commas :: "string list \<Rightarrow> string" where
  "join_commas [] = []"
| "join_commas [x] = x"
| "join_commas (x # y # ys) = x @ '','' @ join_commas (y # ys)"

primrec SerializeJSONProperty :: "jsval \<Rightarrow> string option" where
  "SerializeJSONProperty JSUndefined = None"
| "SerializeJSONProperty JSNull = Some ''null''"
| "SerializeJSONProperty (JSBool b) = Some (if b then ''true'' else ''false'')"
| "SerializeJSONProperty (JSNum q) = Some (Number_toString q)"
| "SerializeJSONProperty (JSStr s) = Some (QuoteJSONString s)"
| "SerializeJSONProperty (JSArr xs) =
     Some (''['' @ join_commas (map (\<lambda>t. case t of None \<Rightarrow> ''null'' | Some u \<Rightarrow> u)
                                 (map SerializeJSONProperty xs)) @ '']'')"
| "SerializeJSONProperty (JSObj kvs) =
     Some (''{'' @ join_commas (concat (map (\<lambda>kt. case snd kt of
                                                   None \<Rightarrow> []
                                                 | Some u \<Rightarrow> [QuoteJSONString (fst kt) @ '':'' @ u])
                                         (map (map_prod id SerializeJSONProperty) kvs))) @ ''}'')"
| "SerializeJSONProperty (JSFileList files) =
     Some (''{'' @ join_commas (map (\<lambda>i. QuoteJSONString (decimal i) @ '':{}'') [0..<length files]) @ ''}'')"

definition reference_JSON_stringify :: "jsval \<Rightarrow> string" where
  "reference_JSON_stringify v = (case SerializeJSONProperty v of None \<Rightarrow> ''undefined'' | Some t \<Rightarrow> t)"

text \<open>
  A property holding a string, and the text \<open>JSON.stringify\<close> prints for it: the quoted
  key, a colon, the quoted value.
\<close>

definition string_member :: "string \<times> jsval \<Rightarrow> bool" where
  "string_member kv = (\<exists>s. snd kv = JSStr s)"

definition member_text :: "string \<times> jsval \<Rightarrow> string" where
  "member_text kv =
     QuoteJSONString (fst kv) @ CHR '':'' # (case snd kv of JSStr s \<Rightarrow> QuoteJSONString s | _ \<Rightarrow> [])"

subsection \<open>The helpers of @/lib/utils, from the specification\<close>

text \<open>
  Modelled from the spec: \<open>parseNumberSafe\<close>, of @/lib/utils (not among the sources).
  "Dog age: parses to a positive number": a decimal numeral (digits, with an optional
  sign and an optional fraction) parses to the number it denotes, every other string to
  \<open>null\<close>.
\<close>

definition spec_parseNumberSafe :: "string \<Rightarrow> real option" where
  "spec_parseNumberSafe val =
     (case (case val of
              [] \<Rightarrow> (False, val)
            | c # r \<Rightarrow> if c = CHR ''-'' then (True, r)
                       else if c = CHR ''+'' then (False, r) else (False, val)) of
        (neg, cs) \<Rightarrow>
          (case take_digits cs of
             (ips, cs') \<Rightarrow>
               (if ips = [] then None
                else (case parse_fraction cs' of
                        Some (fds, []) \<Rightarrow>
                          Some ((if neg then - 1 else 1) *
                                (of_nat (nat_of_digits ips) +
                                 of_nat (nat_of_digits fds) / 10 ^ length fds))
                      | _ \<Rightarrow> None))))"

text \<open>
  Modelled from the spec: \<open>isPositiveNumber\<close>, of @/lib/utils (not among the sources).
  "a positive number": greater than zero.
\<close>

definition spec_isPositiveNumber :: "real \<Rightarrow> bool" where
  "spec_isPositiveNumber n = (0 < n)"

text \<open>
  Modelled from the spec: \<open>sanitizeUSPhone\<close>, of @/lib/utils (not among the sources).
  "must normalize to a valid 10-digit US phone number": the digits of the input, after
  an optional country code 1, are ten.
\<close>

definition spec_sanitizeUSPhone :: "string \<Rightarrow> phone_result" where
  "spec_sanitizeUSPhone val =
     (let digits = filter (\<lambda>c. digit_of c \<noteq> None) val
      in \<lparr>ok = (length digits = 10 \<or> (length digits = 11 \<and> hd digits = CHR ''1''))\<rparr>)"

text \<open>
  Modelled from the spec: \<open>coerceDate\<close>, of @/lib/utils (not among the sources). "must
  parse to a valid calendar date": the text \<open>YYYY-MM-DD\<close> of a day of the Gregorian
  calendar parses to (year, month, day), every other string to \<open>null\<close>.
\<close>

definition days_in_month :: "nat \<Rightarrow> nat \<Rightarrow> nat" where
  "days_in_month y m =
     (if m = 2 then (if y mod 4 = 0 \<and> (y mod 100 \<noteq> 0 \<or> y mod 400 = 0) then 29 else 28)
      else if m = 4 \<or> m = 6 \<or> m = 9 \<or> m = 11 then 30 else 31)"

definition spec_coerceDate :: "string \<Rightarrow> (nat \<times> nat \<times> nat) option" where
  "spec_coerceDate val =
     (case take_digits val of
        (ys, r1) \<Rightarrow>
          (case r1 of
             [] \<Rightarrow> None
           | c1 # r2 \<Rightarrow>
              (case take_digits r2 of
                 (ms, r3) \<Rightarrow>
                   (case r3 of
                      [] \<Rightarrow> None
                    | c2 # r4 \<Rightarrow>
                       (case take_digits r4 of
                          (ds, r5) \<Rightarrow>
                            (let y = nat_of_digits ys; m = nat_of_digits ms; d = nat_of_digits ds
                             in if length ys = 4 \<and> c1 = CHR ''-'' \<and> length ms = 2 \<and> c2 = CHR ''-'' \<and>
                                   length ds = 2 \<and> r5 = [] \<and> 1 \<le> m \<and> m \<le> 12 \<and>
                                   1 \<le> d \<and> d \<le> days_in_month y m
                                then Some (y, m, d) else None))))))"

text \<open>
  Modelled from the spec: \<open>isWithinYears\<close>, of @/lib/utils (not among the sources).
  "fall within the last 3 years of the current date": not after today, and not before
  the same day of the year \<open>n\<close> years ago.
\<close>

fun date_le :: "nat \<times> nat \<times> nat \<Rightarrow> nat \<times> nat \<times> nat \<Rightarrow> bool" where
  "date_le (y1, m1, d1) (y2, m2, d2) =
     (y1 < y2 \<or> (y1 = y2 \<and> (m1 < m2 \<or> (m1 = m2 \<and> d1 \<le> d2))))"

fun spec_isWithinYears :: "nat \<times> nat \<times> nat \<Rightarrow> nat \<times> nat \<times> nat \<Rightarrow> nat \<Rightarrow> bool" where
  "spec_isWithinYears (ty, tm, td) date n = (date_le date (ty, tm, td) \<and> date_le (ty - n, tm, td) date)"

definition spec_utils :: "nat \<times> nat \<times> nat \<Rightarrow> (nat \<times> nat \<times> nat) utils" where
  "spec_utils today =
     \<lparr>sanitizeUSPhone = spec_sanitizeUSPhone,
      coerceDate = spec_coerceDate,
      isWithinYears = spec_isWithinYears today,
      parseNumberSafe = spec_parseNumberSafe,
      isPositiveNumber = spec_isPositiveNumber\<rparr>"

subsection \<open>A browser and a server at one instant\<close>

text \<open>
  The platform of the examples: the reference JSON functions, and one reading of the
  clock and of the random generator.
\<close>

definition example_browser :: platform where
  "example_browser =
     \<lparr>window_defined = True, FileList_defined = True,
      JSON_parse = reference_JSON_parse, JSON_stringify = reference_JSON_stringify,
      Date_now = 1762164000000, Math_random = 43219 / 100000,
      Date_toISOString = ''2025-11-03T10:00:00.000Z''\<rparr>"

definition example_server :: platform where
  "example_server = example_browser\<lparr>window_defined := False, FileList_defined := False\<rparr>"

definition example_utils :: "(nat \<times> nat \<times> nat) utils" where
  "example_utils = spec_utils (2025, 11, 3)"

definition example_storage :: storage where
  "example_storage = \<lparr>items = [], quota = 5242880\<rparr>"

text \<open>The specification's end-to-end example, with a 2 MB PDF as the certificate.\<close>

definition example_values :: js_object where
  "example_values =
     [(''ownerName'', JSStr ''Jane Doe''),
      (''ownerAddress'', JSStr ''123 Main St, Springfield, IL 62701''),
      (''ownerPhone'', JSStr ''(555) 123-4567''),
      (''dogName'', JSStr ''Rex''),
      (''dogBreed'', JSStr ''Labrador''),
      (''dogAge'', JSStr ''4''),
      (''dogColor'', JSStr ''Black''),
      (''lastRabiesShotDate'', JSStr ''2024-05-20''),
      (''vaccinationCertificate'',
       JSFileList [\<lparr>file_size = 2097152, file_type = ''application/pdf''\<rparr>])]"

text \<open>The mounted wizard at a step, over given form values and a storage area.\<close>

definition example_wizard :: "int \<Rightarrow> js_object \<Rightarrow> storage \<Rightarrow> wizard" where
  "example_wizard step vals sto =
     \<lparr>currentStep = step, isClient = True,
      form = \<lparr>formValues = vals, defaultValues = initialValues\<rparr>,
      localStorage = sto, toasts = [], console = [], timeouts = []\<rparr>"

text \<open>
  A session: \<open>nextStep\<close> on the empty form, the owner's fields, steps forward and
  back, the dog's fields, the vaccination fields, and \<open>nextStep\<close> past the last step.
\<close>

definition example_events :: "event list" where
  "example_events =
     [NextStep,
      Change ''ownerName'' (JSStr ''Jane Doe''),
      Change ''ownerAddress'' (JSStr ''123 Main St, Springfield, IL 62701''),
      Change ''ownerPhone'' (JSStr ''(555) 123-4567''),
      NextStep, NextStep, PrevStep, PrevStep, PrevStep,
      NextStep,
      Change ''dogName'' (JSStr ''Rex''),
      Change ''dogBreed'' (JSStr ''Labrador''),
      Change ''dogAge'' (JSStr ''4''),
      Change ''dogColor'' (JSStr ''Black''),
      NextStep,
      Change ''lastRabiesShotDate'' (JSStr ''2024-05-20''),
      Change ''vaccinationCertificate''
        (JSFileList [\<lparr>file_size = 2097152, file_type = ''application/pdf''\<rparr>]),
      NextStep, NextStep, NextStep]"

text \<open>The draft text the save effect writes for the example form.\<close>

definition example_draft :: string where
  "example_draft =
     reference_JSON_stringify (JSObj (AList.delete ''vaccinationCertificate'' example_values))"

text \<open>A record of an earlier submission, and a storage area holding a draft and a list.\<close>

definition earlier_application :: jsval where
  "earlier_application = JSObj [(''id'', JSStr ''DOG-1700000000000-7''), (''status'', JSStr ''submitted'')]"

definition storage_with :: "string \<Rightarrow> string \<Rightarrow> nat \<Rightarrow> storage" where
  "storage_with draft applications limit =
     \<lparr>items = [(''dogLicenseFormData'', draft), (''dogLicenseApplications'', applications)],
      quota = limit\<rparr>"

text \<open>The record \<open>onSubmit\<close> builds from the example form at the example instant.\<close>

definition example_record :: jsval where
  "example_record =
     JSObj ((''id'', JSStr ''DOG-1762164000000-4321'') # example_values @
            [(''submittedAt'', JSStr ''2025-11-03T10:00:00.000Z''), (''status'', JSStr ''submitted'')])"

section \<open>Properties\<close>

subsection \<open>Evaluation and auxiliary facts\<close>

lemmas codec_eval =
  reference_JSON_parse_def skip_ws_def is_ws_def digit_of_def digit_table_def parse_number_def
  parse_fraction_def parse_exponent_def nat_of_digits_def hex_of_def unescape_def char_of_hex_def
  reference_JSON_stringify_def QuoteJSONString_def escape_char_def Number_toString_def decimal.simps

lemmas utils_eval =
  example_utils_def spec_utils_def spec_parseNumberSafe_def spec_isPositiveNumber_def
  spec_sanitizeUSPhone_def spec_coerceDate_def days_in_month_def
  digit_of_def digit_table_def parse_fraction_def nat_of_digits_def

lemmas schema_eval =
  field_passes_def createDogLicenseSchema_def baseSchema_def get_prop_def
  ownerName_schema_def ownerAddress_schema_def ownerPhone_schema_def dogName_schema_def
  dogBreed_schema_def dogAge_schema_def dogColor_schema_def lastRabiesShotDate_schema_def
  vaccinationCertificate_client_def vaccinationCertificate_fallback_def allowedTypes_def
  getFieldsForStep_def

lemmas run_eval =
  run_def nextStep_def prevStep_def setFieldValue_def trigger_def resolver_errors_def
  STEPS_def initial_wizard_def mount_def initialValues_def example_storage_def

lemmas storage_eval =
  storage_with_def getItem_def or_default_def fits_def usage_def example_draft_def
  earlier_application_def example_values_def

lemma length_STEPS: "int (length STEPS) = 4"
  by (simp add: STEPS_def)





lemma getItem_setItem:
  "setItem sto k v = Inr sto' \<Longrightarrow> getItem sto' k' = (if k' = k then Some v else getItem sto k')"
  by (auto simp: setItem_def getItem_def update_conv' split: if_splits)

lemma getItem_removeItem:
  "getItem (removeItem sto k) k' = (if k' = k then None else getItem sto k')"
  by (simp add: removeItem_def getItem_def delete_conv')


lemma update_fresh: "k \<notin> fst ` set al \<Longrightarrow> AList.update k v al = al @ [(k, v)]"
  by (induction al) auto

lemma spread_fresh:
  "distinct (map fst src) \<Longrightarrow> fst ` set target \<inter> fst ` set src = {} \<Longrightarrow>
   spread target src = target @ src"
proof (induction src arbitrary: target)
  case Nil
  then show ?case by (simp add: spread_def)
next
  case (Cons kv src)
  have fresh: "fst kv \<notin> fst ` set target"
    using Cons.prems(2) by auto
  have "spread target (kv # src) = spread (target @ [kv]) src"
    using fresh by (simp add: spread_def update_fresh)
  also have "\<dots> = (target @ [kv]) @ src"
    using Cons.prems by (intro Cons.IH) auto
  finally show ?case by simp
qed

text \<open>
  On data of the form's type the object literal of \<open>onSubmit\<close> is the identifier, the
  data's own properties in their order, the timestamp and the status.
\<close>

lemma applicationData_fresh:
  assumes "is_DogLicenseFormData formData"
  shows "applicationData P applicationId formData =
         (''id'', JSStr applicationId) # formData @
         [(''submittedAt'', JSStr (Date_toISOString P)), (''status'', JSStr ''submitted'')]"
proof -
  have keys: "fst ` set formData \<subseteq> set DogLicenseFormData_keys" and dist: "distinct (map fst formData)"
    using assms by (auto simp: is_DogLicenseFormData_def list_all_iff)
  have no_id: "''id'' \<notin> fst ` set formData"
    and no_at: "''submittedAt'' \<notin> fst ` set formData"
    and no_status: "''status'' \<notin> fst ` set formData"
    using keys by (auto simp: DogLicenseFormData_keys_def)
  have "spread [(''id'', JSStr applicationId)] formData = (''id'', JSStr applicationId) # formData"
    using dist no_id by (simp add: spread_fresh)
  then show ?thesis
    using no_at no_status by (simp add: applicationData_def update_fresh)
qed


subsection \<open>Decimal numerals\<close>





lemma example_id: "generateApplicationId example_browser = ''DOG-1762164000000-4321''"
  by (simp add: generateApplicationId_def example_browser_def Number_toString_def decimal.simps)

subsection \<open>Step gating\<close>



subsection \<open>The step index\<close>

lemma nextStep_step_cases:
  "currentStep (nextStep P U w) = currentStep w \<or>
   currentStep (nextStep P U w) = min (currentStep w + 1) 4"
  by (simp add: nextStep_def Let_def length_STEPS)

lemma handle_keeps_range:
  assumes "1 \<le> currentStep w" and "currentStep w \<le> 4"
  shows "1 \<le> currentStep (handle P U ev w) \<and> currentStep (handle P U ev w) \<le> 4"
proof (cases ev)
  case NextStep
  with assms nextStep_step_cases [of P U w] show ?thesis by auto
next
  case PrevStep
  with assms show ?thesis by (simp add: prevStep_def)
next
  case (Change name v)
  with assms show ?thesis by (simp add: setFieldValue_def)
qed

lemma run_keeps_range:
  "1 \<le> currentStep w \<Longrightarrow> currentStep w \<le> 4 \<Longrightarrow>
   1 \<le> currentStep (run P U evs w) \<and> currentStep (run P U evs w) \<le> 4"
proof (induction evs arbitrary: w)
  case Nil
  then show ?case by (simp add: run_def)
next
  case (Cons ev evs)
  have "1 \<le> currentStep (handle P U ev w) \<and> currentStep (handle P U ev w) \<le> 4"
    using Cons.prems by (rule handle_keeps_range)
  then have "1 \<le> currentStep (run P U evs (handle P U ev w)) \<and>
             currentStep (run P U evs (handle P U ev w)) \<le> 4"
    using Cons.IH by blast
  then show ?case by (simp add: run_def)
qed

text \<open>
  C5. Starting from step 1, after any sequence of \<open>nextStep\<close> and \<open>prevStep\<close> calls,
  with any changes of field values between them, the step index is between 1 and 4.
  \<open>prevStep\<close> takes no account of the form: in every state it moves the index one step
  back, stops at 1, and changes nothing else.
\<close>

theorem step_index_invariant:
  assumes "currentStep w0 = 1"
  shows "1 \<le> currentStep (run P U evs w0) \<and> currentStep (run P U evs w0) \<le> 4 \<and>
         prevStep w = w\<lparr>currentStep := (if currentStep w \<le> 1 then 1 else currentStep w - 1)\<rparr>"
proof -
  have "1 \<le> currentStep (run P U evs w0) \<and> currentStep (run P U evs w0) \<le> 4"
    using assms by (intro run_keeps_range) simp_all
  moreover have "max (currentStep w - 1) 1 = (if currentStep w \<le> 1 then 1 else currentStep w - 1)"
    by simp
  ultimately show ?thesis
    by (simp add: prevStep_def)
qed

text \<open>
  The example session ends on step 4; \<open>prevStep\<close> stays on step 1 with a filled form
  and goes from 4 to 3 with an empty one.
\<close>

theorem step_index_invariant_witness:
  "currentStep (run example_browser example_utils example_events
      (mount (initial_wizard example_storage))) = 4 \<and>
   prevStep (example_wizard 1 example_values example_storage) =
     example_wizard 1 example_values example_storage \<and>
   prevStep (example_wizard 4 [] example_storage) = example_wizard 3 [] example_storage"
proof -
  have start: "currentStep (mount (initial_wizard example_storage)) = 1"
    by (simp add: mount_def initial_wizard_def)
  have "currentStep (run example_browser example_utils example_events
      (mount (initial_wizard example_storage))) = 4"
    by (simp add: example_events_def run_eval schema_eval utils_eval example_browser_def)
  then show ?thesis
    using step_index_invariant [OF start, of example_browser example_utils example_events
        "example_wizard 1 example_values example_storage"]
      step_index_invariant [OF start, of example_browser example_utils example_events
        "example_wizard 4 [] example_storage"]
    by (simp add: example_wizard_def)
qed

subsection \<open>The schema\<close>

text \<open>
  C8. Where \<open>window\<close> and \<open>FileList\<close> are both defined (a browser), the certificate
  field validates exactly when its value is a \<open>FileList\<close> with a first file of at most
  \<open>5 * 1024 * 1024 = 5242880\<close> bytes whose MIME type is \<open>application/pdf\<close>,
  \<open>image/jpeg\<close>, \<open>image/png\<close> or \<open>image/jpg\<close> (a second spelling of JPEG); in every
  other context the rule accepts every value, \<open>undefined\<close> included.
\<close>

theorem vaccinationCertificate_rule:
  "\<exists>rule. map_of (createDogLicenseSchema P U) ''vaccinationCertificate'' = Some rule \<and>
     (if window_defined P \<and> FileList_defined P
      then (\<forall>v. rule v \<longleftrightarrow>
              (\<exists>file rest. v = JSFileList (file # rest) \<and> file_size file \<le> 5242880 \<and>
                 file_type file \<in> {''application/pdf'', ''image/jpeg'', ''image/png'', ''image/jpg''}))
      else (\<forall>v. rule v))"
proof -
  have client: "vaccinationCertificate_client v \<longleftrightarrow>
        (\<exists>file rest. v = JSFileList (file # rest) \<and> file_size file \<le> 5242880 \<and>
           file_type file \<in> {''application/pdf'', ''image/jpeg'', ''image/png'', ''image/jpg''})" for v
    by (auto simp: vaccinationCertificate_client_def allowedTypes_def split: jsval.splits list.splits)
  have fallback: "vaccinationCertificate_fallback = (\<lambda>v. True)"
    by (simp add: fun_eq_iff vaccinationCertificate_fallback_def)
  show ?thesis
    by (cases "window_defined P"; cases "FileList_defined P")
       (simp_all add: createDogLicenseSchema_def baseSchema_def client fallback)
qed

text \<open>
  In the browser the 2 MB PDF passes; a file one byte over the limit, a GIF, an empty
  list and a missing value fail. On the server the missing value and the GIF pass.
\<close>

theorem vaccinationCertificate_rule_witness:
  "field_passes example_browser example_utils example_values ''vaccinationCertificate'' \<and>
   \<not> field_passes example_browser example_utils
        [(''vaccinationCertificate'',
          JSFileList [\<lparr>file_size = 5242881, file_type = ''application/pdf''\<rparr>])]
        ''vaccinationCertificate'' \<and>
   \<not> field_passes example_browser example_utils
        [(''vaccinationCertificate'', JSFileList [\<lparr>file_size = 10, file_type = ''image/gif''\<rparr>])]
        ''vaccinationCertificate'' \<and>
   \<not> field_passes example_browser example_utils
        [(''vaccinationCertificate'', JSFileList [])] ''vaccinationCertificate'' \<and>
   \<not> field_passes example_browser example_utils [] ''vaccinationCertificate'' \<and>
   field_passes example_server example_utils [] ''vaccinationCertificate'' \<and>
   field_passes example_server example_utils
        [(''vaccinationCertificate'', JSFileList [\<lparr>file_size = 10, file_type = ''image/gif''\<rparr>])]
        ''vaccinationCertificate''"
proof -
  have browser: "window_defined example_browser \<and> FileList_defined example_browser"
    by (simp add: example_browser_def)
  have server: "\<not> (window_defined example_server \<and> FileList_defined example_server)"
    by (simp add: example_server_def example_browser_def)
  from vaccinationCertificate_rule [of example_browser example_utils] browser
  obtain rb where rb: "map_of (createDogLicenseSchema example_browser example_utils)
        ''vaccinationCertificate'' = Some rb"
    and rb_iff: "\<And>v. rb v \<longleftrightarrow>
        (\<exists>file rest. v = JSFileList (file # rest) \<and> file_size file \<le> 5242880 \<and>
           file_type file \<in> {''application/pdf'', ''image/jpeg'', ''image/png'', ''image/jpg''})"
    by auto
  from vaccinationCertificate_rule [of example_server example_utils] server
  obtain rs where rs: "map_of (createDogLicenseSchema example_server example_utils)
        ''vaccinationCertificate'' = Some rs"
    and rs_all: "\<And>v. rs v"
    by auto
  show ?thesis
    using rb rs rs_all
    by (simp add: field_passes_def rb_iff get_prop_def example_values_def)
qed

text \<open>
  C9. The dog-age field validates exactly when its value is a string that
  \<open>parseNumberSafe\<close> parses to a number which \<open>isPositiveNumber\<close> accepts and which is
  at most 30. With the two helpers as the specification describes them, that is: a
  string that parses to a number greater than 0 and at most 30; "31" fails and "3" passes.
\<close>

theorem dogAge_rule:
  "(dogAge_schema U v \<longleftrightarrow>
      (\<exists>s num. v = JSStr s \<and> parseNumberSafe U s = Some num \<and> isPositiveNumber U num \<and> num \<le> 30)) \<and>
   (dogAge_schema (spec_utils today) v \<longleftrightarrow>
      (\<exists>s num. v = JSStr s \<and> spec_parseNumberSafe s = Some num \<and> 0 < num \<and> num \<le> 30)) \<and>
   \<not> dogAge_schema (spec_utils today) (JSStr ''31'') \<and>
   dogAge_schema (spec_utils today) (JSStr ''3'')"
proof -
  have general: "dogAge_schema U' v \<longleftrightarrow>
      (\<exists>s num. v = JSStr s \<and> parseNumberSafe U' s = Some num \<and> isPositiveNumber U' num \<and> num \<le> 30)"
    for U' :: "'b utils"
    by (cases v) (auto simp: dogAge_schema_def split: option.splits)
  have p31: "spec_parseNumberSafe ''31'' = Some 31"
    by (simp add: spec_parseNumberSafe_def digit_of_def digit_table_def parse_fraction_def
          nat_of_digits_def)
  have p3: "spec_parseNumberSafe ''3'' = Some 3"
    by (simp add: spec_parseNumberSafe_def digit_of_def digit_table_def parse_fraction_def
          nat_of_digits_def)
  have spec: "dogAge_schema (spec_utils today) v \<longleftrightarrow>
      (\<exists>s num. v = JSStr s \<and> spec_parseNumberSafe s = Some num \<and> 0 < num \<and> num \<le> 30)"
    using general [of "spec_utils today"]
    by (simp add: spec_utils_def spec_isPositiveNumber_def)
  have no31: "\<not> dogAge_schema (spec_utils today) (JSStr ''31'')"
    by (simp add: dogAge_schema_def spec_utils_def spec_isPositiveNumber_def p31)
  have yes3: "dogAge_schema (spec_utils today) (JSStr ''3'')"
    by (simp add: dogAge_schema_def spec_utils_def spec_isPositiveNumber_def p3)
  from general [of U] spec no31 yes3 show ?thesis
    by blast
qed

text \<open>More ages: "30" and "0.5" pass; "0", "-2", "30.5", a word, the empty string and
  a number that is not a string fail.\<close>

theorem dogAge_rule_witness:
  "dogAge_schema example_utils (JSStr ''30'') \<and>
   dogAge_schema example_utils (JSStr ''0.5'') \<and>
   \<not> dogAge_schema example_utils (JSStr ''0'') \<and>
   \<not> dogAge_schema example_utils (JSStr ''-2'') \<and>
   \<not> dogAge_schema example_utils (JSStr ''30.5'') \<and>
   \<not> dogAge_schema example_utils (JSStr ''three'') \<and>
   \<not> dogAge_schema example_utils (JSStr '''') \<and>
   \<not> dogAge_schema example_utils (JSNum 3) \<and>
   \<not> dogAge_schema example_utils (JSStr ''31'') \<and>
   dogAge_schema example_utils (JSStr ''3'')"
proof -
  have parses:
    "spec_parseNumberSafe ''30'' = Some 30"
    "spec_parseNumberSafe ''0.5'' = Some (1 / 2)"
    "spec_parseNumberSafe ''0'' = Some 0"
    "spec_parseNumberSafe ''-2'' = Some (- 2)"
    "spec_parseNumberSafe ''30.5'' = Some (61 / 2)"
    "spec_parseNumberSafe ''three'' = None"
    "spec_parseNumberSafe '''' = None"
    by (simp_all add: spec_parseNumberSafe_def digit_of_def digit_table_def parse_fraction_def
          nat_of_digits_def)
  have rule: "dogAge_schema example_utils v \<longleftrightarrow>
      (\<exists>s num. v = JSStr s \<and> spec_parseNumberSafe s = Some num \<and> 0 < num \<and> num \<le> 30)" for v
    using dogAge_rule [of example_utils v "(2025, 11, 3)"]
    unfolding example_utils_def by blast
  have ex: "\<not> dogAge_schema example_utils (JSStr ''31'')" "dogAge_schema example_utils (JSStr ''3'')"
    using dogAge_rule [of example_utils JSNull "(2025, 11, 3)"]
    unfolding example_utils_def by blast+
  have half: "dogAge_schema example_utils (JSStr ''0.5'')"
    unfolding rule using parses(2) by (intro exI [of _ "''0.5''"] exI [of _ "1 / 2"]) simp
  have over: "\<not> dogAge_schema example_utils (JSStr ''30.5'')"
    unfolding rule using parses(5) by auto
  show ?thesis
    using ex half over by (simp add: rule parses(1,3,4,6,7))
qed

subsection \<open>Submission\<close>



text \<open>
  C10. Before the mount effect has set \<open>isClient\<close>, \<open>onSubmit\<close> returns the state it was
  given: the storage area (submission list and draft), the notifications, the console,
  the form and the step index are all unchanged.
\<close>

theorem onSubmit_not_client:
  "\<not> isClient w \<Longrightarrow> onSubmit P formData w = w"
  by (simp add: onSubmit_def)

text \<open>On the first render, in the browser and on the server, submitting changes nothing.\<close>

theorem onSubmit_not_client_witness:
  "onSubmit example_browser example_values (initial_wizard example_storage) =
     initial_wizard example_storage \<and>
   onSubmit example_server example_values (initial_wizard example_storage) =
     initial_wizard example_storage"
  using onSubmit_not_client [of "initial_wizard example_storage" example_browser example_values]
    onSubmit_not_client [of "initial_wizard example_storage" example_server example_values]
  by (simp add: initial_wizard_def)

text \<open>
  C2. In the client, for data of the form's type, when the stored submission list parses
  to an array \<open>existing\<close> and the new list fits the storage quota (the submission
  succeeds): the list stored afterwards is the text of \<open>existing\<close> followed by exactly
  one new record, the record being the generated identifier, the data's fields, the
  submission timestamp and the status "submitted"; the records of \<open>existing\<close> are kept
  as they were; the draft key is gone; the step index is 1.
\<close>

theorem onSubmit_success:
  assumes "isClient w"
    and "is_DogLicenseFormData formData"
    and "JSON_parse P (or_default (getItem (localStorage w) ''dogLicenseApplications'') ''[]'') =
           Inr (JSArr existing)"
    and "record = JSObj ((''id'', JSStr (generateApplicationId P)) # formData @
           [(''submittedAt'', JSStr (Date_toISOString P)), (''status'', JSStr ''submitted'')])"
    and "fits (localStorage w) ''dogLicenseApplications'' (JSON_stringify P (JSArr (existing @ [record])))"
  shows "getItem (localStorage (onSubmit P formData w)) ''dogLicenseApplications'' =
           Some (JSON_stringify P (JSArr (existing @ [record]))) \<and>
         getItem (localStorage (onSubmit P formData w)) ''dogLicenseFormData'' = None \<and>
         currentStep (onSubmit P formData w) = 1"
proof -
  obtain sto where sto: "setItem (localStorage w) ''dogLicenseApplications''
      (JSON_stringify P (JSArr (existing @ [record]))) = Inr sto"
    using assms(5) by (simp add: setItem_def)
  have rec: "JSObj (applicationData P (generateApplicationId P) formData) = record"
    using assms(2,4) by (simp add: applicationData_fresh)
  have "submit_try P formData w =
      Inr (w\<lparr>localStorage := removeItem sto ''dogLicenseFormData'',
             toasts := toasts w @
               [ToastSuccess (''Application submitted successfully! Your application ID is: '' @
                              generateApplicationId P)],
             form := form_reset JSUndefined (form w),
             currentStep := 1,
             timeouts := timeouts w @ [(2000, ''/track-application?id='' @ generateApplicationId P)]\<rparr>)"
    using assms(3) sto rec by (simp add: submit_try_def Let_def)
  then have "onSubmit P formData w =
      w\<lparr>localStorage := removeItem sto ''dogLicenseFormData'',
        toasts := toasts w @
          [ToastSuccess (''Application submitted successfully! Your application ID is: '' @
                         generateApplicationId P)],
        form := form_reset JSUndefined (form w),
        currentStep := 1,
        timeouts := timeouts w @ [(2000, ''/track-application?id='' @ generateApplicationId P)]\<rparr>"
    using assms(1) by (simp add: onSubmit_def)
  then show ?thesis
    using getItem_setItem [OF sto] by (simp add: getItem_removeItem)
qed

text \<open>
  Submitting the example form over a storage area that holds its draft and one earlier
  application: the stored list becomes the earlier application followed by the new
  record, the draft is removed and the wizard is on step 1.
\<close>

theorem onSubmit_success_witness:
  "getItem (localStorage (onSubmit example_browser example_values
      (example_wizard 4 example_values
         (storage_with example_draft (reference_JSON_stringify (JSArr [earlier_application])) 5242880))))
     ''dogLicenseApplications'' =
     Some (reference_JSON_stringify (JSArr [earlier_application, example_record])) \<and>
   getItem (localStorage (onSubmit example_browser example_values
      (example_wizard 4 example_values
         (storage_with example_draft (reference_JSON_stringify (JSArr [earlier_application])) 5242880))))
     ''dogLicenseFormData'' = None \<and>
   currentStep (onSubmit example_browser example_values
      (example_wizard 4 example_values
         (storage_with example_draft (reference_JSON_stringify (JSArr [earlier_application])) 5242880))) = 1"
proof -
  let ?sto = "storage_with example_draft (reference_JSON_stringify (JSArr [earlier_application])) 5242880"
  let ?w = "example_wizard 4 example_values ?sto"
  have client: "isClient ?w"
    by (simp add: example_wizard_def)
  have typed: "is_DogLicenseFormData example_values"
    by (simp add: is_DogLicenseFormData_def DogLicenseFormData_keys_def example_values_def)
  have parsed: "JSON_parse example_browser
      (or_default (getItem (localStorage ?w) ''dogLicenseApplications'') ''[]'') =
      Inr (JSArr [earlier_application])"
    by (simp add: example_wizard_def example_browser_def storage_eval codec_eval)
  have rec_eq: "example_record =
      JSObj ((''id'', JSStr (generateApplicationId example_browser)) # example_values @
        [(''submittedAt'', JSStr (Date_toISOString example_browser)), (''status'', JSStr ''submitted'')])"
    by (simp add: example_record_def example_id) (simp add: example_browser_def)
  have room: "fits (localStorage ?w) ''dogLicenseApplications''
      (JSON_stringify example_browser (JSArr ([earlier_application] @ [example_record])))"
    by (simp add: example_wizard_def example_browser_def example_record_def storage_eval codec_eval)
  show ?thesis
    using onSubmit_success [OF client typed parsed rec_eq room]
    by (simp add: example_browser_def)
qed



subsection \<open>The reference JSON functions on objects of strings\<close>

lemma skip_ws_id: "\<not> is_ws c \<Longrightarrow> skip_ws (c # cs) = c # cs"
  by (simp add: skip_ws_def)

text \<open>Every character, as \<open>JSON.stringify\<close> escapes it, is read back by the parser.\<close>

lemma parse_chars_escape_char:
  "parse_chars (escape_char c @ rest) =
     (case parse_chars rest of None \<Rightarrow> None | Some (s, r) \<Rightarrow> Some (c # s, r))"
proof -
  obtain b0 b1 b2 b3 b4 b5 b6 b7 where c: "c = Char b0 b1 b2 b3 b4 b5 b6 b7"
    by (cases c) blast
  show ?thesis
    unfolding c
    by (cases b0; cases b1; cases b2; cases b3; cases b4; cases b5; cases b6; cases b7)
       (simp_all add: escape_char_def unescape_def hex_of_def digit_table_def char_of_hex_def
          split: option.splits)
qed

lemma parse_chars_quoted:
  "parse_chars (concat (map escape_char s) @ CHR 0x22 # rest) = Some (s, rest)"
  by (induction s) (simp_all add: parse_chars_escape_char)

lemma parse_value_string:
  "parse_value (Suc n) (QuoteJSONString s @ rest) = Some (JSStr s, rest)"
  by (simp add: QuoteJSONString_def skip_ws_def is_ws_def parse_chars_quoted)

lemma parse_members_step:
  assumes "\<not> is_ws d"
  shows "parse_members (Suc (Suc m)) acc
           (QuoteJSONString k @ CHR '':'' # QuoteJSONString s @ d # r) =
         (if d = CHR '','' then parse_members (Suc m) (AList.update k (JSStr s) acc) r
          else if d = CHR ''}'' then Some (AList.update k (JSStr s) acc, r)
          else None)"
  apply (subst parse_members.simps(2))
  using assms
  apply (simp add: QuoteJSONString_def [of k] skip_ws_def is_ws_def parse_chars_quoted
      parse_value_string del: parse_members.simps parse_value.simps)
  done

lemma parse_members_strings:
  assumes "list_all string_member kvs" and "kvs \<noteq> []"
    and "distinct (map fst (acc @ kvs))" and "length kvs < n"
  shows "parse_members n acc (join_commas (map member_text kvs) @ CHR ''}'' # rest) =
           Some (acc @ kvs, rest)"
  using assms
proof (induction kvs arbitrary: acc n)
  case Nil
  then show ?case by simp
next
  case (Cons kv kvs)
  obtain k s where kv: "kv = (k, JSStr s)"
    using Cons.prems(1) by (cases kv) (auto simp: string_member_def)
  obtain m where n: "n = Suc (Suc m)"
    using Cons.prems(4) by (cases n; cases "n - 1") auto
  have fresh: "k \<notin> fst ` set acc"
    using Cons.prems(3) kv by auto
  have upd: "AList.update k (JSStr s) acc = acc @ [(k, JSStr s)]"
    using fresh by (rule update_fresh)
  have ws: "\<not> is_ws (CHR ''}'')" "\<not> is_ws (CHR '','')"
    by (simp_all add: is_ws_def)
  show ?case
  proof (cases kvs)
    case Nil
    have "parse_members n acc (join_commas (map member_text (kv # kvs)) @ CHR ''}'' # rest) =
        parse_members (Suc (Suc m)) acc
          (QuoteJSONString k @ CHR '':'' # QuoteJSONString s @ CHR ''}'' # rest)"
      by (simp add: Nil kv n member_text_def del: parse_members.simps)
    also have "\<dots> = Some (acc @ kv # kvs, rest)"
      by (simp only: parse_members_step [OF ws(1)] upd) (simp add: Nil kv)
    finally show ?thesis .
  next
    case (Cons kv' kvs')
    have IH: "parse_members (Suc m) (acc @ [(k, JSStr s)])
        (join_commas (map member_text kvs) @ CHR ''}'' # rest) = Some ((acc @ [(k, JSStr s)]) @ kvs, rest)"
      using Cons.prems Cons kv n by (intro Cons.IH) auto
    have "parse_members n acc (join_commas (map member_text (kv # kvs)) @ CHR ''}'' # rest) =
        parse_members (Suc (Suc m)) acc
          (QuoteJSONString k @ CHR '':'' # QuoteJSONString s @ CHR '','' #
             (join_commas (map member_text kvs) @ CHR ''}'' # rest))"
      by (simp add: Cons kv n member_text_def del: parse_members.simps)
    also have "\<dots> = parse_members (Suc m) (acc @ [(k, JSStr s)])
          (join_commas (map member_text kvs) @ CHR ''}'' # rest)"
      by (simp only: parse_members_step [OF ws(2)] upd) simp
    also have "\<dots> = Some (acc @ kv # kvs, rest)"
      unfolding IH by (simp add: kv)
    finally show ?thesis .
  qed
qed

lemma serialize_string_members:
  "list_all string_member kvs \<Longrightarrow>
   concat (map (\<lambda>kt. case snd kt of None \<Rightarrow> [] | Some u \<Rightarrow> [QuoteJSONString (fst kt) @ '':'' @ u])
            (map (map_prod id SerializeJSONProperty) kvs)) = map member_text kvs"
  by (induction kvs) (auto simp: string_member_def member_text_def)

lemma stringify_string_members:
  "list_all string_member kvs \<Longrightarrow>
   reference_JSON_stringify (JSObj kvs) = CHR ''{'' # join_commas (map member_text kvs) @ ''}''"
  using serialize_string_members [of kvs]
  by (simp add: reference_JSON_stringify_def del: map_map)

lemma length_join_commas: "list_all (\<lambda>t. t \<noteq> []) ts \<Longrightarrow> length ts \<le> length (join_commas ts)"
proof (induction ts rule: join_commas.induct)
  case (3 x y ys)
  then show ?case by (cases x) auto
qed (auto simp: Suc_le_eq)

lemma member_text_nonempty: "member_text kv \<noteq> []"
  by (simp add: member_text_def QuoteJSONString_def)

lemma join_commas_starts_quoted:
  "kvs \<noteq> [] \<Longrightarrow> \<exists>r. join_commas (map member_text kvs) = CHR 0x22 # r"
proof (cases kvs)
  case Nil
  then show "kvs \<noteq> [] \<Longrightarrow> ?thesis" by simp
next
  case (Cons kv kvs')
  then show ?thesis
    by (cases kvs') (simp_all add: member_text_def QuoteJSONString_def)
qed

text \<open>
  The reference functions read back what they print, on every object with distinct keys
  whose values are strings: the shape of a draft of the form.
\<close>

lemma reference_JSON_round_trip:
  assumes "kvs \<noteq> []" and "distinct (map fst kvs)" and "list_all string_member kvs"
  shows "reference_JSON_parse (reference_JSON_stringify (JSObj kvs)) = Inr (JSObj kvs) \<and>
         reference_JSON_stringify (JSObj kvs) \<noteq> []"
proof -
  let ?body = "join_commas (map member_text kvs)"
  obtain r where r: "?body = CHR 0x22 # r"
    using join_commas_starts_quoted [OF assms(1)] by blast
  have "length kvs \<le> length ?body"
    using length_join_commas [of "map member_text kvs"]
    by (simp add: list_all_iff member_text_nonempty)
  then have fuel: "length kvs < Suc (length ?body + 1)"
    by simp
  have members: "parse_members (Suc (length ?body + 1)) [] (?body @ CHR ''}'' # []) = Some ([] @ kvs, [])"
    using assms fuel by (intro parse_members_strings) simp_all
  have "parse_value (Suc (length (CHR ''{'' # ?body @ ''}''))) (CHR ''{'' # ?body @ ''}'') =
      Some (JSObj kvs, [])"
    apply (subst parse_value.simps(2))
    using members
    apply (simp add: r skip_ws_def is_ws_def del: parse_value.simps parse_members.simps)
    done
  then show ?thesis
    by (simp add: reference_JSON_parse_def stringify_string_members [OF assms(3)] skip_ws_def
          del: parse_value.simps)
qed

subsection \<open>Draft persistence\<close>

lemma saveDraft_writes:
  assumes "isClient w" and "saveDraft P w = Inr w'"
  shows "getItem (localStorage w') ''dogLicenseFormData'' =
         Some (JSON_stringify P (JSObj (AList.delete ''vaccinationCertificate'' (formValues (form w)))))"
proof -
  obtain sto where sto: "setItem (localStorage w) ''dogLicenseFormData''
      (JSON_stringify P (JSObj (AList.delete ''vaccinationCertificate'' (formValues (form w))))) = Inr sto"
    and w': "w' = w\<lparr>localStorage := sto\<rparr>"
    using assms by (auto simp: saveDraft_def Let_def split: sum.splits)
  show ?thesis
    using getItem_setItem [OF sto] w' by simp
qed

lemma load_page_restores:
  assumes "getItem sto ''dogLicenseFormData'' = Some savedData" and "savedData \<noteq> []"
    and "JSON_parse P savedData = Inr (JSObj draft)" and "draft \<noteq> []"
  shows "formValues (form (load_page P sto)) = draft"
  using assms
  by (simp add: load_page_def restoreDraft_def mount_def initial_wizard_def form_reset_def)

text \<open>
  With the reference JSON functions the round trip needs no assumption on them: every
  draft with distinct keys and string values is restored as it was saved.
\<close>

lemma draft_round_trip_reference:
  assumes "isClient w" and "saveDraft P w = Inr w'"
    and "JSON_parse P = reference_JSON_parse" and "JSON_stringify P = reference_JSON_stringify"
    and "draft = AList.delete ''vaccinationCertificate'' (formValues (form w))"
    and "draft \<noteq> []" and "distinct (map fst (formValues (form w)))"
    and "list_all string_member draft"
  shows "formValues (form (load_page P (localStorage w'))) = draft"
proof -
  have "distinct (map fst draft)"
    using assms(5,7) by (simp add: distinct_delete)
  then have "reference_JSON_parse (reference_JSON_stringify (JSObj draft)) = Inr (JSObj draft) \<and>
      reference_JSON_stringify (JSObj draft) \<noteq> []"
    using assms(6,8) by (intro reference_JSON_round_trip)
  then show ?thesis
    using saveDraft_writes [OF assms(1,2)] assms(3,4,5,6)
    by (intro load_page_restores [where savedData = "reference_JSON_stringify (JSObj draft)"]) simp_all
qed



text \<open>
  C7, as amended. For every non-empty stored draft text on which \<open>JSON.parse\<close> throws,
  loading the page leaves the form at its empty default values, logs the error on the
  console and returns normally. An empty stored text is skipped by the guard
  \<open>if (savedData)\<close>: it is never parsed, the form is empty and nothing is logged.
\<close>

theorem restore_corrupt_draft:
  "(getItem sto ''dogLicenseFormData'' = Some savedData \<and> savedData \<noteq> [] \<and>
      JSON_parse P savedData = Inl e \<longrightarrow>
    load_page P sto =
      (mount (initial_wizard sto))\<lparr>console := [(''Error loading saved form data:'', e)]\<rparr> \<and>
    formValues (form (load_page P sto)) = initialValues) \<and>
   (getItem sto ''dogLicenseFormData'' = Some [] \<longrightarrow>
    load_page P sto = mount (initial_wizard sto) \<and>
    formValues (form (load_page P sto)) = initialValues \<and> console (load_page P sto) = [])"
  by (simp add: load_page_def restoreDraft_def mount_def initial_wizard_def)

text \<open>A draft cut short is logged as a \<open>SyntaxError\<close>; the empty draft passes silently.\<close>

theorem restore_corrupt_draft_witness:
  "load_page example_browser \<lparr>items = [(''dogLicenseFormData'', ''{oops'')], quota = 5242880\<rparr> =
     (mount (initial_wizard \<lparr>items = [(''dogLicenseFormData'', ''{oops'')], quota = 5242880\<rparr>))
       \<lparr>console := [(''Error loading saved form data:'', SyntaxError)]\<rparr> \<and>
   formValues (form (load_page example_browser
     \<lparr>items = [(''dogLicenseFormData'', ''{oops'')], quota = 5242880\<rparr>)) = initialValues \<and>
   load_page example_browser \<lparr>items = [(''dogLicenseFormData'', [])], quota = 5242880\<rparr> =
     mount (initial_wizard \<lparr>items = [(''dogLicenseFormData'', [])], quota = 5242880\<rparr>)"
proof -
  have corrupt: "JSON_parse example_browser ''{oops'' = Inl SyntaxError"
    by (simp add: example_browser_def codec_eval)
  show ?thesis
    using corrupt
      restore_corrupt_draft [of "\<lparr>items = [(''dogLicenseFormData'', ''{oops'')], quota = 5242880\<rparr>"
        "''{oops''" example_browser SyntaxError]
      restore_corrupt_draft [of "\<lparr>items = [(''dogLicenseFormData'', [])], quota = 5242880\<rparr>"
        "[]" example_browser SyntaxError]
    by (simp add: getItem_def mount_def initial_wizard_def)
qed

text \<open>
  C7 as stated fails at the empty string: it is a stored draft that does not parse as
  JSON, and loading the page over it logs nothing.
\<close>

theorem empty_draft_not_logged:
  "JSON_parse example_browser [] = Inl SyntaxError \<and>
   console (load_page example_browser
     \<lparr>items = [(''dogLicenseFormData'', [])], quota = 5242880\<rparr>) = []"
  by (simp add: example_browser_def codec_eval load_page_def restoreDraft_def mount_def
        initial_wizard_def getItem_def)

end
